theory Spec2Isabelle
  imports Complex_Main "HOL-Library.AList"
begin

section \<open>Values\<close>

text \<open>
  The processor of \<^verbatim>\<open>server/services/nlp_query_processor.py\<close> works on the values that
  \<^verbatim>\<open>json.loads\<close> produces and \<^verbatim>\<open>json.dumps\<close> prints: \<^verbatim>\<open>None\<close>, booleans, integers, floats,
  strings, lists and dicts with string keys. A dict is an association list in insertion
  order; a float is carried as the decimal number its literal denotes (no arithmetic is
  done on floats anywhere in the file). Strings are \<^typ>\<open>string\<close>; \<^verbatim>\<open>len\<close> and slicing count
  its characters.
\<close>

datatype json =
    JNull
  | JBool bool
  | JInt int
  | JFloat rat
  | JStr string
  | JArr "json list"
  | JObj "(string \<times> json) list"

type_synonym dict = "(string \<times> json) list"

text \<open>
  Exceptions: \<open>PyErr cls msg\<close> is an instance of a subclass of \<^verbatim>\<open>Exception\<close> whose
  \<^verbatim>\<open>str(e)\<close> is \<open>msg\<close>; \<open>SystemExit\<close> is what \<^verbatim>\<open>sys.exit\<close> raises, which
  \<^verbatim>\<open>except Exception\<close> does not catch. The messages of the interpreter's own exceptions
  are those of CPython 3.11 and later.
\<close>

datatype pyexn = PyErr string string | SystemExit int

definition bind_exn :: "pyexn + 'a \<Rightarrow> ('a \<Rightarrow> pyexn + 'b) \<Rightarrow> pyexn + 'b" where
  "bind_exn m f = (case m of Inl e \<Rightarrow> Inl e | Inr x \<Rightarrow> f x)"

definition quoted :: "string \<Rightarrow> string" where
  "quoted s = CHR 0x27 # s @ [CHR 0x27]"

fun type_name :: "json \<Rightarrow> string" where
  "type_name JNull = ''NoneType''"
| "type_name (JBool b) = ''bool''"
| "type_name (JInt n) = ''int''"
| "type_name (JFloat x) = ''float''"
| "type_name (JStr s) = ''str''"
| "type_name (JArr xs) = ''list''"
| "type_name (JObj d) = ''dict''"

text \<open>\<^verbatim>\<open>d.get(k, default)\<close> on a dict, and \<^verbatim>\<open>d[k] = v\<close>: the key keeps its place when it
  is already there and goes to the end otherwise.\<close>

definition dict_get :: "dict \<Rightarrow> string \<Rightarrow> json \<Rightarrow> json" where
  "dict_get d k dflt = (case map_of d k of None \<Rightarrow> dflt | Some v \<Rightarrow> v)"

definition dict_set :: "dict \<Rightarrow> string \<Rightarrow> json \<Rightarrow> dict" where
  "dict_set d k v = AList.update k v d"

text \<open>\<^verbatim>\<open>x.get(k, default)\<close> on any value: only a dict has the method.\<close>

fun get_method :: "json \<Rightarrow> string \<Rightarrow> json \<Rightarrow> pyexn + json" where
  "get_method (JObj d) k dflt = Inr (dict_get d k dflt)"
| "get_method j k dflt =
     Inl (PyErr ''AttributeError''
       (quoted (type_name j) @ '' object has no attribute '' @ quoted ''get''))"

text \<open>\<^verbatim>\<open>x[k]\<close> with a string key \<open>k\<close>.\<close>

fun get_item :: "json \<Rightarrow> string \<Rightarrow> pyexn + json" where
  "get_item (JObj d) k =
     (case map_of d k of None \<Rightarrow> Inl (PyErr ''KeyError'' (quoted k)) | Some v \<Rightarrow> Inr v)"
| "get_item (JArr xs) k =
     Inl (PyErr ''TypeError'' ''list indices must be integers or slices, not str'')"
| "get_item (JStr s) k =
     Inl (PyErr ''TypeError'' (''string indices must be integers, not '' @ quoted ''str''))"
| "get_item j k =
     Inl (PyErr ''TypeError'' (quoted (type_name j) @ '' object is not subscriptable''))"

text \<open>\<^verbatim>\<open>x[k] = v\<close> with a string key \<open>k\<close>.\<close>

fun set_item :: "json \<Rightarrow> string \<Rightarrow> json \<Rightarrow> pyexn + json" where
  "set_item (JObj d) k v = Inr (JObj (dict_set d k v))"
| "set_item (JArr xs) k v =
     Inl (PyErr ''TypeError'' ''list indices must be integers or slices, not str'')"
| "set_item j k v =
     Inl (PyErr ''TypeError''
       (quoted (type_name j) @ '' object does not support item assignment''))"

text \<open>\<^verbatim>\<open>len(x)\<close>.\<close>

fun py_len :: "json \<Rightarrow> pyexn + int" where
  "py_len (JArr xs) = Inr (int (length xs))"
| "py_len (JStr s) = Inr (int (length s))"
| "py_len (JObj d) = Inr (int (length d))"
| "py_len j =
     Inl (PyErr ''TypeError'' (''object of type '' @ quoted (type_name j) @ '' has no len()''))"

section \<open>The canned aggregate tables\<close>

definition get_mock_patient_search_results :: "json list" where
  "get_mock_patient_search_results =
    [JObj [(''ageRange'', JStr ''25-35''), (''count'', JInt 15), (''percentage'', JFloat 30.0)],
     JObj [(''ageRange'', JStr ''36-45''), (''count'', JInt 20), (''percentage'', JFloat 40.0)],
     JObj [(''ageRange'', JStr ''46-55''), (''count'', JInt 10), (''percentage'', JFloat 20.0)],
     JObj [(''ageRange'', JStr ''56-65''), (''count'', JInt 5), (''percentage'', JFloat 10.0)]]"

definition get_mock_medical_analysis_results :: "json list" where
  "get_mock_medical_analysis_results =
    [JObj [(''condition'', JStr ''High Blood Pressure''), (''count'', JInt 25),
           (''percentage'', JFloat 15.5)],
     JObj [(''condition'', JStr ''Diabetes''), (''count'', JInt 18),
           (''percentage'', JFloat 11.2)],
     JObj [(''condition'', JStr ''Heart Disease''), (''count'', JInt 12),
           (''percentage'', JFloat 7.5)],
     JObj [(''condition'', JStr ''Respiratory Issues''), (''count'', JInt 8),
           (''percentage'', JFloat 5.0)]]"

definition get_mock_compliance_results :: "json list" where
  "get_mock_compliance_results =
    [JObj [(''status'', JStr ''Completed''), (''count'', JInt 145), (''percentage'', JFloat 85.3)],
     JObj [(''status'', JStr ''In Progress''), (''count'', JInt 18), (''percentage'', JFloat 10.6)],
     JObj [(''status'', JStr ''Incomplete''), (''count'', JInt 7), (''percentage'', JFloat 4.1)]]"

definition get_mock_risk_assessment_results :: "json list" where
  "get_mock_risk_assessment_results =
    [JObj [(''riskLevel'', JStr ''High''), (''count'', JInt 8),
           (''conditions'', JArr [JStr ''Multiple medical alerts'', JStr ''Working at heights''])],
     JObj [(''riskLevel'', JStr ''Medium''), (''count'', JInt 22),
           (''conditions'', JArr [JStr ''Single medical condition''])],
     JObj [(''riskLevel'', JStr ''Low''), (''count'', JInt 120),
           (''conditions'', JArr [JStr ''No significant risks''])]]"

definition get_mock_operational_results :: "json list" where
  "get_mock_operational_results =
    [JObj [(''examinationType'', JStr ''Pre-Employment''), (''avgTime'', JStr ''45 minutes''),
           (''count'', JInt 85)],
     JObj [(''examinationType'', JStr ''Periodic''), (''avgTime'', JStr ''35 minutes''),
           (''count'', JInt 62)],
     JObj [(''examinationType'', JStr ''Exit''), (''avgTime'', JStr ''25 minutes''),
           (''count'', JInt 23)]]"

definition get_mock_medical_charts :: "json list" where
  "get_mock_medical_charts =
    [JObj [(''type'', JStr ''pie''),
           (''title'', JStr ''Medical Conditions Distribution''),
           (''data'', JArr
              [JObj [(''label'', JStr ''High Blood Pressure''), (''value'', JInt 25)],
               JObj [(''label'', JStr ''Diabetes''), (''value'', JInt 18)],
               JObj [(''label'', JStr ''Heart Disease''), (''value'', JInt 12)],
               JObj [(''label'', JStr ''Other''), (''value'', JInt 30)]])]]"

definition get_mock_compliance_charts :: "json list" where
  "get_mock_compliance_charts =
    [JObj [(''type'', JStr ''bar''),
           (''title'', JStr ''Questionnaire Completion Status''),
           (''data'', JArr
              [JObj [(''label'', JStr ''Completed''), (''value'', JInt 145)],
               JObj [(''label'', JStr ''In Progress''), (''value'', JInt 18)],
               JObj [(''label'', JStr ''Incomplete''), (''value'', JInt 7)]])]]"

definition get_mock_operational_charts :: "json list" where
  "get_mock_operational_charts =
    [JObj [(''type'', JStr ''line''),
           (''title'', JStr ''Average Examination Time by Type''),
           (''data'', JArr
              [JObj [(''label'', JStr ''Pre-Employment''), (''value'', JInt 45)],
               JObj [(''label'', JStr ''Periodic''), (''value'', JInt 35)],
               JObj [(''label'', JStr ''Exit''), (''value'', JInt 25)]])]]"

section \<open>execute\_query\<close>

text \<open>
  The two statements every routed branch starts with:
  \<^verbatim>\<open>ai_result['results'] = table; ai_result['resultCount'] = len(ai_result['results'])\<close>.
\<close>

definition store_results :: "json \<Rightarrow> json list \<Rightarrow> pyexn + json" where
  "store_results ai_result table =
     bind_exn (set_item ai_result ''results'' (JArr table)) (\<lambda>a1.
     bind_exn (get_item a1 ''results'') (\<lambda>rs.
     bind_exn (py_len rs) (\<lambda>n.
     set_item a1 ''resultCount'' (JInt n))))"

text \<open>The body of the \<^verbatim>\<open>try\<close> of \<^verbatim>\<open>execute_query\<close>. The dict is updated in place in the
  source; the model returns the updated value.\<close>

definition execute_query_try :: "json \<Rightarrow> json \<Rightarrow> pyexn + json" where
  "execute_query_try ai_result query_data =
     bind_exn (get_method ai_result ''mongoQuery'' (JObj [])) (\<lambda>mongo_query.
     bind_exn (get_method ai_result ''queryType'' (JStr ''UNKNOWN'')) (\<lambda>query_type.
       if query_type = JStr ''PATIENT_SEARCH'' then
         store_results ai_result get_mock_patient_search_results
       else if query_type = JStr ''MEDICAL_ANALYSIS'' then
         bind_exn (store_results ai_result get_mock_medical_analysis_results) (\<lambda>a.
         set_item a ''charts'' (JArr get_mock_medical_charts))
       else if query_type = JStr ''COMPLIANCE_REPORTING'' then
         bind_exn (store_results ai_result get_mock_compliance_results) (\<lambda>a.
         set_item a ''charts'' (JArr get_mock_compliance_charts))
       else if query_type = JStr ''RISK_ASSESSMENT'' then
         store_results ai_result get_mock_risk_assessment_results
       else if query_type = JStr ''OPERATIONAL_INSIGHTS'' then
         bind_exn (store_results ai_result get_mock_operational_results) (\<lambda>a.
         set_item a ''charts'' (JArr get_mock_operational_charts))
       else Inr ai_result))"

text \<open>
  \<^verbatim>\<open>execute_query\<close>: the \<^verbatim>\<open>except Exception\<close> handler stores \<^verbatim>\<open>error\<close> and
  \<^verbatim>\<open>success\<close> into \<^verbatim>\<open>ai_result\<close>. Every statement of the body that can raise stands
  before the first assignment, so the handler sees \<^verbatim>\<open>ai_result\<close> as it was on entry.
\<close>

definition execute_query :: "json \<Rightarrow> json \<Rightarrow> pyexn + json" where
  "execute_query ai_result query_data =
     (case execute_query_try ai_result query_data of
        Inl (PyErr cls msg) \<Rightarrow>
          bind_exn (set_item ai_result ''error'' (JStr (''Query execution failed: '' @ msg))) (\<lambda>a.
          set_item a ''success'' (JBool False))
      | Inl (SystemExit n) \<Rightarrow> Inl (SystemExit n)
      | Inr r \<Rightarrow> Inr r)"

section \<open>The processor and what surrounds it\<close>

text \<open>
  What one run takes from outside the file: the process environment, the fixed
  instruction block that \<^verbatim>\<open>__init__\<close> stores (prose handed upstream as it is), the
  date \<^verbatim>\<open>datetime.now().strftime('%Y-%m-%d')\<close>, the outcome of building the
  \<^verbatim>\<open>LlmChat\<close> and awaiting \<^verbatim>\<open>send_message\<close> (the reply text, or the exception raised),
  the text of \<^verbatim>\<open>f"{execution_time:.0f}"\<close> for the measured wall-clock time, the standard
  library's \<^verbatim>\<open>json.loads\<close> on a string, and \<^verbatim>\<open>str\<close> of a value that is not a string.
  Where one of these raises, it raises an instance of \<^verbatim>\<open>Exception\<close>, given as its class
  name and its \<^verbatim>\<open>str(e)\<close>.
\<close>

record chat_request =
  chat_api_key :: string
  chat_session_id :: string
  chat_system_message :: string
  chat_provider :: string
  chat_model :: string
  chat_max_tokens :: nat
  chat_text :: string

record env =
  getenv :: "string \<Rightarrow> string option"
  instruction_block :: string
  strftime_today :: string
  send_message :: "chat_request \<Rightarrow> (string \<times> string) + string"
  elapsed_0f :: string
  json_loads :: "string \<Rightarrow> (string \<times> string) + json"
  str_other :: "json \<Rightarrow> string"

record processor =
  openai_api_key :: "string option"
  model :: string
  system_message :: string

definition raise_exc :: "(string \<times> string) + 'a \<Rightarrow> pyexn + 'a" where
  "raise_exc m = (case m of Inl (cls, msg) \<Rightarrow> Inl (PyErr cls msg) | Inr x \<Rightarrow> Inr x)"

text \<open>\<^verbatim>\<open>HealthcareNLQueryProcessor.__init__\<close>.\<close>

definition new_processor :: "env \<Rightarrow> processor" where
  "new_processor w =
     \<lparr>openai_api_key = getenv w ''OPENAI_API_KEY'',
      model = ''gpt-4o'',
      system_message = instruction_block w\<rparr>"

text \<open>\<^verbatim>\<open>str(v)\<close>, as an f-string field renders a value.\<close>

definition py_str :: "env \<Rightarrow> json \<Rightarrow> string" where
  "py_str w v = (case v of JStr s \<Rightarrow> s | _ \<Rightarrow> str_other w v)"

text \<open>\<^verbatim>\<open>not self.openai_api_key\<close>: \<^verbatim>\<open>None\<close> and the empty string are falsy.\<close>

definition key_missing :: "string option \<Rightarrow> bool" where
  "key_missing k = (case k of None \<Rightarrow> True | Some s \<Rightarrow> s = [])"

definition create_mock_response :: "env \<Rightarrow> json \<Rightarrow> string \<Rightarrow> json" where
  "create_mock_response w query error_msg =
     JObj [(''success'', JBool False),
           (''error'', JStr error_msg),
           (''interpretation'', JStr (''Unable to process query: '' @ py_str w query)),
           (''queryType'', JStr ''UNKNOWN''),
           (''mongoQuery'', JObj []),
           (''sqlQuery'', JStr []),
           (''results'', JArr []),
           (''resultCount'', JInt 0),
           (''executionTime'', JStr ''0ms''),
           (''summary'', JStr
              ''AI service not configured. Please set OPENAI_API_KEY environment variable.''),
           (''charts'', JArr []),
           (''suggestions'', JArr
              [JStr ''Set up OpenAI API key to enable natural language queries'',
               JStr ''Try using the manual query interface'',
               JStr ''Contact administrator for assistance''])]"

definition parse_natural_response :: "env \<Rightarrow> string \<Rightarrow> json \<Rightarrow> json" where
  "parse_natural_response w response query =
     JObj [(''success'', JBool True),
           (''interpretation'', JStr (''AI interpretation of: '' @ py_str w query)),
           (''queryType'', JStr ''GENERAL''),
           (''mongoQuery'', JObj []),
           (''sqlQuery'', JStr []),
           (''results'', JArr [JObj [(''response'', JStr response)]]),
           (''resultCount'', JInt 1),
           (''executionTime'', JStr (elapsed_0f w @ ''ms'')),
           (''summary'', JStr
              (if length response > 200 then take 200 response @ ''...'' else response)),
           (''charts'', JArr []),
           (''suggestions'', JArr
              [JStr ''Try a more specific query'', JStr ''Ask about patient statistics''])]"

text \<open>The user message of \<^verbatim>\<open>process_query\<close> and the chat it is sent on.\<close>

definition user_message_text :: "env \<Rightarrow> json \<Rightarrow> json \<Rightarrow> string" where
  "user_message_text w query user_role =
     ''\<newline>Natural Language Query: '' @ [CHR 0x22] @ py_str w query @ [CHR 0x22] @
     ''\<newline>User Role: '' @ py_str w user_role @
     ''\<newline>Current Date: '' @ strftime_today w @
     ''\<newline>\<newline>Please convert this to appropriate MongoDB queries and provide analysis. '' @
     ''\<newline>Remember to:'' @
     ''\<newline>1. Respect user role permissions'' @
     ''\<newline>2. Return aggregated data, not individual patient records'' @
     ''\<newline>3. Include appropriate date filters'' @
     ''\<newline>4. Provide meaningful insights and follow-up suggestions\<newline>''"

definition chat_of :: "env \<Rightarrow> processor \<Rightarrow> json \<Rightarrow> json \<Rightarrow> json \<Rightarrow> chat_request" where
  "chat_of w self query user_role request_id =
     \<lparr>chat_api_key = (case openai_api_key self of None \<Rightarrow> [] | Some k \<Rightarrow> k),
      chat_session_id = ''nlq_'' @ py_str w request_id,
      chat_system_message = system_message self,
      chat_provider = ''openai'',
      chat_model = model self,
      chat_max_tokens = 4096,
      chat_text = user_message_text w query user_role\<rparr>"

text \<open>
  The inner \<^verbatim>\<open>try\<close> of \<^verbatim>\<open>process_query\<close>: decode, stamp the elapsed time, run
  \<^verbatim>\<open>execute_query\<close>; \<^verbatim>\<open>except json.JSONDecodeError\<close> wraps the raw text instead, and
  any other exception goes on to the outer handler.
\<close>

definition decode_and_execute :: "env \<Rightarrow> string \<Rightarrow> json \<Rightarrow> json \<Rightarrow> pyexn + json" where
  "decode_and_execute w response query query_data =
     (case bind_exn (raise_exc (json_loads w response)) (\<lambda>result.
           bind_exn (set_item result ''executionTime'' (JStr (elapsed_0f w @ ''ms''))) (\<lambda>result.
           execute_query result query_data)) of
        Inl (PyErr cls msg) \<Rightarrow>
          if cls = ''JSONDecodeError'' then Inr (parse_natural_response w response query)
          else Inl (PyErr cls msg)
      | r \<Rightarrow> r)"

text \<open>
  The body of the outer \<^verbatim>\<open>try\<close> of \<^verbatim>\<open>process_query\<close>. It returns the outcome, the
  local \<^verbatim>\<open>query\<close> if the first statement has bound it, and the requests that went
  upstream.
\<close>

definition process_query_try ::
  "env \<Rightarrow> processor \<Rightarrow> json \<Rightarrow> (pyexn + json) \<times> json option \<times> chat_request list" where
  "process_query_try w self query_data =
     (case get_item query_data ''query'' of
        Inl e \<Rightarrow> (Inl e, None, [])
      | Inr query \<Rightarrow>
         (case get_method query_data ''userRole'' (JStr ''staff'') of
            Inl e \<Rightarrow> (Inl e, Some query, [])
          | Inr user_role \<Rightarrow>
             if key_missing (openai_api_key self) then
               (Inr (create_mock_response w query ''OpenAI API key not configured''),
                Some query, [])
             else
               (case get_method query_data ''requestId'' (JStr ''default'') of
                  Inl e \<Rightarrow> (Inl e, Some query, [])
                | Inr request_id \<Rightarrow>
                   (let chat = chat_of w self query user_role request_id in
                    case raise_exc (send_message w chat) of
                      Inl e \<Rightarrow> (Inl e, Some query, [chat])
                    | Inr response \<Rightarrow>
                        (decode_and_execute w response query query_data,
                         Some query, [chat])))))"

text \<open>The envelope that the handler \<^verbatim>\<open>except Exception as e\<close> of
  \<^verbatim>\<open>process_query\<close> returns, from \<^verbatim>\<open>str(e)\<close> and the local \<^verbatim>\<open>query\<close>.\<close>

definition process_query_except :: "env \<Rightarrow> string \<Rightarrow> json \<Rightarrow> json" where
  "process_query_except w msg query =
     JObj [(''success'', JBool False),
           (''error'', JStr msg),
           (''interpretation'', JStr (''Failed to process query: '' @ py_str w query)),
           (''suggestions'', JArr
              [JStr ''Try rephrasing your question'', JStr ''Use simpler medical terms''])]"

text \<open>
  \<^verbatim>\<open>process_query\<close>: when the first statement raised, \<^verbatim>\<open>query\<close> is unbound and the
  handler itself raises on reading it. The result is the outcome and the requests that
  went upstream.
\<close>

definition process_query ::
  "env \<Rightarrow> processor \<Rightarrow> json \<Rightarrow> (pyexn + json) \<times> chat_request list" where
  "process_query w self query_data =
     (case process_query_try w self query_data of
        (Inl (PyErr cls msg), None, sent) \<Rightarrow>
          (Inl (PyErr ''UnboundLocalError''
             (''cannot access local variable '' @ quoted ''query'' @
              '' where it is not associated with a value'')), sent)
      | (Inl (PyErr cls msg), Some query, sent) \<Rightarrow>
          (Inr (process_query_except w msg query), sent)
      | (outcome, query, sent) \<Rightarrow> (outcome, sent))"

section \<open>main\<close>

text \<open>
  One run of the script: what it prints (each \<^verbatim>\<open>print(json.dumps(v))\<close> is recorded as
  the value \<open>v\<close>), the exception that leaves \<^verbatim>\<open>main\<close> if any, and the requests that
  went upstream.
\<close>

record run =
  printed :: "json list"
  uncaught :: "pyexn option"
  upstream :: "chat_request list"



section \<open>Reading a response\<close>

text \<open>The value stored under a key of a response, if the response is a dict that has it.\<close>

fun entry :: "json \<Rightarrow> string \<Rightarrow> json option" where
  "entry (JObj d) k = map_of d k"
| "entry j k = None"

text \<open>The five query types that \<^verbatim>\<open>execute_query\<close> has a branch for.\<close>

definition routed_types :: "json list" where
  "routed_types =
     [JStr ''PATIENT_SEARCH'', JStr ''MEDICAL_ANALYSIS'', JStr ''COMPLIANCE_REPORTING'',
      JStr ''RISK_ASSESSMENT'', JStr ''OPERATIONAL_INSIGHTS'']"

text \<open>\<^verbatim>\<open>resultCount == len(results)\<close>, both present.\<close>

definition count_matches :: "json \<Rightarrow> bool" where
  "count_matches r =
     (case (entry r ''results'', entry r ''resultCount'') of
        (Some (JArr rs), Some (JInt n)) \<Rightarrow> n = int (length rs)
      | _ \<Rightarrow> False)"

text \<open>\<^verbatim>\<open>error\<close> is non-null (present and not \<^verbatim>\<open>None\<close>) exactly when \<^verbatim>\<open>success\<close> is
  \<^verbatim>\<open>False\<close>.\<close>

definition error_iff_failure :: "json \<Rightarrow> bool" where
  "error_iff_failure r =
     ((entry r ''error'' \<noteq> None \<and> entry r ''error'' \<noteq> Some JNull) =
      (entry r ''success'' = Some (JBool False)))"

text \<open>The points of a chart, and an integer entry of a record.\<close>

definition points :: "json \<Rightarrow> json list" where
  "points chart = (case entry chart ''data'' of Some (JArr ps) \<Rightarrow> ps | _ \<Rightarrow> [])"

definition int_entry :: "json \<Rightarrow> string \<Rightarrow> int" where
  "int_entry j k = (case entry j k of Some (JInt n) \<Rightarrow> n | _ \<Rightarrow> 0)"

text \<open>
  Modelled from the spec: the direct-identifier pattern (personal name, national ID
  number, contact detail) is not written down anywhere in the source. It is taken here as
  a record key that names a patient (the patient fields \<^verbatim>\<open>firstName\<close>, \<^verbatim>\<open>surname\<close>,
  \<^verbatim>\<open>idNumber\<close>, \<^verbatim>\<open>phone\<close>, \<^verbatim>\<open>email\<close> of \<^verbatim>\<open>backend_test.py\<close>), or a string holding
  thirteen digits in a row, the length of the identity number \<^verbatim>\<open>TEST_SA_ID\<close> there.
\<close>

definition is_digit :: "char \<Rightarrow> bool" where
  "is_digit c = (c \<in> set ''0123456789'')"

fun digit_run :: "nat \<Rightarrow> nat \<Rightarrow> string \<Rightarrow> bool" where
  "digit_run n seen [] = (n \<le> seen)"
| "digit_run n seen (c # cs) =
     (n \<le> seen \<or> (if is_digit c then digit_run n (Suc seen) cs else digit_run n 0 cs))"

definition identifier_fields :: "string list" where
  "identifier_fields = [''firstName'', ''surname'', ''idNumber'', ''phone'', ''email'']"

fun exposes_identifier :: "json \<Rightarrow> bool" where
  "exposes_identifier (JStr s) = digit_run 13 0 s"
| "exposes_identifier (JArr xs) = (\<exists>x\<in>set xs. exposes_identifier x)"
| "exposes_identifier (JObj d) =
     (\<exists>kv\<in>set d. fst kv \<in> set identifier_fields \<or> exposes_identifier (snd kv))"
| "exposes_identifier j = False"

text \<open>
  What the canned tables are made of: the keys of their records, all of them category
  labels, ranges, counts and percentages. An aggregate record has only such keys and
  exposes no identifier.
\<close>

definition aggregate_keys :: "string list" where
  "aggregate_keys = [''ageRange'', ''count'', ''percentage'', ''condition'', ''status'',
     ''riskLevel'', ''conditions'', ''examinationType'', ''avgTime'']"

definition aggregate_record :: "json \<Rightarrow> bool" where
  "aggregate_record x =
     (case x of
        JObj fs \<Rightarrow> list_all (\<lambda>kv. fst kv \<in> set aggregate_keys) fs \<and> \<not> exposes_identifier x
      | _ \<Rightarrow> False)"

section \<open>Sample runs\<close>

text \<open>
  Concrete surroundings for the examples below: the credential, the upstream outcome
  and the texts that decode (every other text is refused as \<^verbatim>\<open>json.loads\<close> refuses
  text that is not JSON). Each text in a table is paired with the value it denotes.
\<close>

definition decoder :: "(string \<times> json) list \<Rightarrow> string \<Rightarrow> (string \<times> string) + json" where
  "decoder table s =
     (case map_of table s of
        Some j \<Rightarrow> Inr j
      | None \<Rightarrow> Inl (''JSONDecodeError'', ''Expecting value: line 1 column 1 (char 0)''))"

definition sample_env ::
  "string option \<Rightarrow> (string \<times> string) + string \<Rightarrow> (string \<times> json) list \<Rightarrow> env" where
  "sample_env key reply table =
     \<lparr>getenv = (\<lambda>name. if name = ''OPENAI_API_KEY'' then key else None),
      instruction_block = ''You are a healthcare data query assistant'',
      strftime_today = ''2025-01-15'',
      send_message = (\<lambda>chat. reply),
      elapsed_0f = ''12'',
      json_loads = decoder table,
      str_other = (\<lambda>v. ''?'')\<rparr>"

definition names_request :: json where
  "names_request = JObj [(''query'', JStr ''list patient names'')]"

definition status_request :: json where
  "status_request =
     JObj [(''query'', JStr ''How many questionnaires are incomplete?''),
           (''userRole'', JStr ''doctor''),
           (''requestId'', JStr ''r1'')]"

definition refusal_text :: string where
  "refusal_text = ''Patient names cannot be listed.''"

definition identifying_text :: string where
  "identifying_text = ''Thabo Nkosi, ID 7807215422081''"

definition compliance_text :: string where
  \<open>compliance_text = ''{"success": true, "queryType": "COMPLIANCE_REPORTING"}''\<close>

definition compliance_value :: json where
  "compliance_value =
     JObj [(''success'', JBool True), (''queryType'', JStr ''COMPLIANCE_REPORTING'')]"

definition miscounted_text :: string where
  \<open>miscounted_text =
     ''{"success": true, "queryType": "GENERAL", "results": [{"note": "none"}], "resultCount": 0}''\<close>

definition miscounted_value :: json where
  "miscounted_value =
     JObj [(''success'', JBool True), (''queryType'', JStr ''GENERAL''),
           (''results'', JArr [JObj [(''note'', JStr ''none'')]]),
           (''resultCount'', JInt 0)]"

definition declined_text :: string where
  \<open>declined_text = ''{"success": false, "queryType": "PATIENT_SEARCH"}''\<close>

definition declined_value :: json where
  "declined_value = JObj [(''success'', JBool False), (''queryType'', JStr ''PATIENT_SEARCH'')]"

definition patient_text :: string where
  \<open>patient_text =
     ''{"success": true, "queryType": "GENERAL", "results": [{"firstName": "Thabo", "surname": "Nkosi"}], "resultCount": 1}''\<close>

definition patient_value :: json where
  "patient_value =
     JObj [(''success'', JBool True), (''queryType'', JStr ''GENERAL''),
           (''results'', JArr [JObj [(''firstName'', JStr ''Thabo''), (''surname'', JStr ''Nkosi'')]]),
           (''resultCount'', JInt 1)]"

definition forecast_text :: string where
  \<open>forecast_text =
     ''{"queryType": "TREND_FORECAST", "results": [{"month": "Jan", "count": 3}], "resultCount": 1, "charts": [{"type": "line", "title": "Trend", "data": []}]}''\<close>

definition forecast_value :: json where
  "forecast_value =
     JObj [(''queryType'', JStr ''TREND_FORECAST''),
           (''results'', JArr [JObj [(''month'', JStr ''Jan''), (''count'', JInt 3)]]),
           (''resultCount'', JInt 1),
           (''charts'', JArr [JObj [(''type'', JStr ''line''), (''title'', JStr ''Trend''),
                                    (''data'', JArr [])]])]"

definition refusing_env :: env where
  "refusing_env = sample_env (Some ''sk-test'') (Inr refusal_text) []"

definition unconfigured_env :: env where
  "unconfigured_env = sample_env None (Inr refusal_text) []"

definition leaking_env :: env where
  "leaking_env = sample_env (Some ''sk-test'') (Inr identifying_text) []"

definition compliance_env :: env where
  "compliance_env =
     sample_env (Some ''sk-test'') (Inr compliance_text) [(compliance_text, compliance_value)]"

definition miscounted_env :: env where
  "miscounted_env =
     sample_env (Some ''sk-test'') (Inr miscounted_text) [(miscounted_text, miscounted_value)]"

definition declined_env :: env where
  "declined_env =
     sample_env (Some ''sk-test'') (Inr declined_text) [(declined_text, declined_value)]"

definition patient_env :: env where
  "patient_env =
     sample_env (Some ''sk-test'') (Inr patient_text) [(patient_text, patient_value)]"

definition forecast_env :: env where
  "forecast_env =
     sample_env (Some ''sk-test'') (Inr forecast_text) [(forecast_text, forecast_value)]"

definition list_env :: env where
  "list_env = sample_env (Some ''sk-test'') (Inr refusal_text) [(''[]'', JArr [])]"

definition failing_env :: env where
  "failing_env = sample_env (Some ''sk-test'') (Inl (''TimeoutError'', ''timed out'')) []"

section \<open>The paths through the processor\<close>

lemma map_of_dict_set:
  "map_of (dict_set d k v) k' = (if k' = k then Some v else map_of d k')"
  by (simp add: dict_set_def update_conv')

lemma store_results_dict:
  "store_results (JObj d) t =
     Inr (JObj (dict_set (dict_set d ''results'' (JArr t)) ''resultCount''
                  (JInt (int (length t)))))"
  by (simp add: store_results_def bind_exn_def map_of_dict_set)

text \<open>On a dict no statement of \<^verbatim>\<open>execute_query\<close> raises, and the result is the dict
  with the entries of the taken branch stored.\<close>

lemma execute_query_try_dict:
  "execute_query_try (JObj d) qd =
    (let query_type = dict_get d ''queryType'' (JStr ''UNKNOWN'');
         put = (\<lambda>t. dict_set (dict_set d ''results'' (JArr t)) ''resultCount''
                      (JInt (int (length t))))
     in Inr (JObj (
       if query_type = JStr ''PATIENT_SEARCH'' then put get_mock_patient_search_results
       else if query_type = JStr ''MEDICAL_ANALYSIS'' then
         dict_set (put get_mock_medical_analysis_results) ''charts'' (JArr get_mock_medical_charts)
       else if query_type = JStr ''COMPLIANCE_REPORTING'' then
         dict_set (put get_mock_compliance_results) ''charts'' (JArr get_mock_compliance_charts)
       else if query_type = JStr ''RISK_ASSESSMENT'' then put get_mock_risk_assessment_results
       else if query_type = JStr ''OPERATIONAL_INSIGHTS'' then
         dict_set (put get_mock_operational_results) ''charts'' (JArr get_mock_operational_charts)
       else d)))"
  by (simp add: execute_query_try_def bind_exn_def store_results_dict Let_def)

lemma execute_query_dict:
  "execute_query (JObj d) qd = execute_query_try (JObj d) qd"
  by (simp add: execute_query_def execute_query_try_dict Let_def)

text \<open>On anything else the handler of \<^verbatim>\<open>execute_query\<close> raises in its turn.\<close>

lemma set_item_not_dict:
  "(\<forall>a. j \<noteq> JObj a) \<Longrightarrow> \<exists>m. set_item j k v = Inl (PyErr ''TypeError'' m)"
  by (cases j) auto

lemma execute_query_not_dict:
  assumes "\<forall>a. j \<noteq> JObj a"
  shows "\<exists>m. execute_query j qd = Inl (PyErr ''TypeError'' m)"
proof -
  from assms obtain m0 where "execute_query_try j qd = Inl (PyErr ''AttributeError'' m0)"
    by (cases j) (auto simp: execute_query_try_def bind_exn_def)
  moreover from set_item_not_dict [OF assms] obtain m
    where "set_item j ''error'' (JStr (''Query execution failed: '' @ m0)) =
           Inl (PyErr ''TypeError'' m)"
    by blast
  ultimately show ?thesis
    by (simp add: execute_query_def bind_exn_def)
qed

text \<open>The body of \<^verbatim>\<open>process_query\<close> on a request that carries a query.\<close>

lemma process_query_try_request:
  assumes "map_of d ''query'' = Some q"
  shows "process_query_try w self (JObj d) =
    (if key_missing (openai_api_key self) then
       (Inr (create_mock_response w q ''OpenAI API key not configured''), Some q, [])
     else
       (let chat = chat_of w self q (dict_get d ''userRole'' (JStr ''staff''))
                     (dict_get d ''requestId'' (JStr ''default''))
        in case raise_exc (send_message w chat) of
             Inl e \<Rightarrow> (Inl e, Some q, [chat])
           | Inr response \<Rightarrow> (decode_and_execute w response q (JObj d), Some q, [chat])))"
  using assms by (simp add: process_query_try_def)

text \<open>Without a query the first statement raises and \<^verbatim>\<open>query\<close> stays unbound.\<close>

lemma process_query_try_no_query:
  assumes "\<forall>d q. query_data = JObj d \<longrightarrow> map_of d ''query'' \<noteq> Some q"
  shows "\<exists>cls msg. process_query_try w self query_data = (Inl (PyErr cls msg), None, [])"
  using assms
  by (cases query_data) (auto simp: process_query_try_def split: option.splits)

text \<open>The four ways the inner \<^verbatim>\<open>try\<close> ends.\<close>

lemma decode_fallback:
  "json_loads w response = Inl (''JSONDecodeError'', m) \<Longrightarrow>
   decode_and_execute w response q qd = Inr (parse_natural_response w response q)"
  by (simp add: decode_and_execute_def bind_exn_def raise_exc_def)

lemma decode_other_error:
  "json_loads w response = Inl (cls, m) \<Longrightarrow> cls \<noteq> ''JSONDecodeError'' \<Longrightarrow>
   decode_and_execute w response q qd = Inl (PyErr cls m)"
  by (simp add: decode_and_execute_def bind_exn_def raise_exc_def)

lemma decode_dict:
  "json_loads w response = Inr (JObj a) \<Longrightarrow>
   decode_and_execute w response q qd =
     execute_query_try (JObj (dict_set a ''executionTime'' (JStr (elapsed_0f w @ ''ms'')))) qd"
  by (simp add: decode_and_execute_def bind_exn_def raise_exc_def execute_query_dict
      execute_query_try_dict Let_def)

lemma decode_not_dict:
  assumes "json_loads w response = Inr j" "\<forall>a. j \<noteq> JObj a"
  shows "\<exists>m. decode_and_execute w response q qd = Inl (PyErr ''TypeError'' m)"
proof -
  from set_item_not_dict [OF assms(2)] obtain m
    where "set_item j ''executionTime'' (JStr (elapsed_0f w @ ''ms'')) =
           Inl (PyErr ''TypeError'' m)"
    by blast
  with assms(1) show ?thesis
    by (simp add: decode_and_execute_def bind_exn_def raise_exc_def)
qed

text \<open>Every way \<^verbatim>\<open>process_query\<close> returns a response.\<close>

lemma process_query_returns:
  assumes ret: "process_query w self qd = (Inr r, sent)"
  obtains
    (config) d q where "qd = JObj d" "map_of d ''query'' = Some q"
      "key_missing (openai_api_key self)"
      "r = create_mock_response w q ''OpenAI API key not configured''" "sent = []"
  | (fault) d q msg where "qd = JObj d" "map_of d ''query'' = Some q"
      "\<not> key_missing (openai_api_key self)"
      "r = process_query_except w msg q"
  | (fallback) d q response where "qd = JObj d" "map_of d ''query'' = Some q"
      "\<not> key_missing (openai_api_key self)"
      "sent = [chat_of w self q (dict_get d ''userRole'' (JStr ''staff''))
                 (dict_get d ''requestId'' (JStr ''default''))]"
      "send_message w (chat_of w self q (dict_get d ''userRole'' (JStr ''staff''))
                 (dict_get d ''requestId'' (JStr ''default''))) = Inr response"
      "r = parse_natural_response w response q"
  | (decoded) d q response a where "qd = JObj d" "map_of d ''query'' = Some q"
      "\<not> key_missing (openai_api_key self)"
      "sent = [chat_of w self q (dict_get d ''userRole'' (JStr ''staff''))
                 (dict_get d ''requestId'' (JStr ''default''))]"
      "send_message w (chat_of w self q (dict_get d ''userRole'' (JStr ''staff''))
                 (dict_get d ''requestId'' (JStr ''default''))) = Inr response"
      "json_loads w response = Inr (JObj a)"
      "execute_query_try (JObj (dict_set a ''executionTime'' (JStr (elapsed_0f w @ ''ms'')))) qd
         = Inr r"
proof (cases "\<exists>d q. qd = JObj d \<and> map_of d ''query'' = Some q")
  case False
  then have "\<forall>d q. qd = JObj d \<longrightarrow> map_of d ''query'' \<noteq> Some q" by blast
  from process_query_try_no_query [OF this, of w self] obtain cls msg
    where "process_query_try w self qd = (Inl (PyErr cls msg), None, [])" by blast
  with ret show ?thesis by (simp add: process_query_def)
next
  case True
  then obtain d q where qd: "qd = JObj d" and q: "map_of d ''query'' = Some q" by blast
  let ?chat = "chat_of w self q (dict_get d ''userRole'' (JStr ''staff''))
                 (dict_get d ''requestId'' (JStr ''default''))"
  show ?thesis
  proof (cases "key_missing (openai_api_key self)")
    case True
    with ret qd q have "r = create_mock_response w q ''OpenAI API key not configured''" "sent = []"
      by (simp_all add: process_query_def process_query_try_request)
    with qd q True show ?thesis by (rule config)
  next
    case nokey: False
    show ?thesis
    proof (cases "send_message w ?chat")
      case (Inl e)
      obtain cls msg where e: "e = (cls, msg)" by (cases e)
      with ret qd q nokey Inl have "r = process_query_except w msg q"
        by (simp add: process_query_def process_query_try_request Let_def raise_exc_def)
      with qd q nokey show ?thesis by (rule fault)
    next
      case (Inr response)
      have pq: "process_query w self qd =
        (case decode_and_execute w response q qd of
           Inl (PyErr cls msg) \<Rightarrow> (Inr (process_query_except w msg q), [?chat])
         | out \<Rightarrow> (out, [?chat]))"
        using qd q nokey Inr
        by (simp add: process_query_def process_query_try_request Let_def raise_exc_def
            split: sum.splits pyexn.splits)
      show ?thesis
      proof (cases "json_loads w response")
        case loads: (Inl e)
        obtain cls m where e: "e = (cls, m)" by (cases e)
        show ?thesis
        proof (cases "cls = ''JSONDecodeError''")
          case True
          with loads e have "decode_and_execute w response q qd =
              Inr (parse_natural_response w response q)"
            by (simp add: decode_fallback)
          with pq ret have "r = parse_natural_response w response q" "sent = [?chat]"
            by simp_all
          with qd q nokey Inr show ?thesis by (intro fallback) simp_all
        next
          case False
          with loads e have "decode_and_execute w response q qd = Inl (PyErr cls m)"
            by (simp add: decode_other_error)
          with pq ret have "r = process_query_except w m q" by simp
          with qd q nokey show ?thesis by (rule fault)
        qed
      next
        case loads: (Inr j)
        show ?thesis
        proof (cases "\<exists>a. j = JObj a")
          case True
          then obtain a where j: "j = JObj a" by blast
          with loads have dec: "decode_and_execute w response q qd =
            execute_query_try (JObj (dict_set a ''executionTime'' (JStr (elapsed_0f w @ ''ms'')))) qd"
            by (simp add: decode_dict)
          moreover have "\<exists>r'. execute_query_try
              (JObj (dict_set a ''executionTime'' (JStr (elapsed_0f w @ ''ms'')))) qd = Inr r'"
            by (simp add: execute_query_try_dict Let_def)
          ultimately have "execute_query_try
              (JObj (dict_set a ''executionTime'' (JStr (elapsed_0f w @ ''ms'')))) qd = Inr r"
            "sent = [?chat]"
            using pq ret by auto
          with qd q nokey Inr loads j show ?thesis by (intro decoded) simp_all
        next
          case False
          then have "\<forall>a. j \<noteq> JObj a" by blast
          from decode_not_dict [OF loads this, of q qd] obtain m
            where "decode_and_execute w response q qd = Inl (PyErr ''TypeError'' m)" by blast
          with pq ret have "r = process_query_except w m q" by simp
          with qd q nokey show ?thesis by (rule fault)
        qed
      qed
    qed
  qed
qed

text \<open>What \<^verbatim>\<open>execute_query\<close> stores on a routed type, and that it stores nothing
  otherwise.\<close>

lemma tables_aggregate:
  "list_all aggregate_record get_mock_patient_search_results"
  "list_all aggregate_record get_mock_medical_analysis_results"
  "list_all aggregate_record get_mock_compliance_results"
  "list_all aggregate_record get_mock_risk_assessment_results"
  "list_all aggregate_record get_mock_operational_results"
  by (simp_all add: aggregate_record_def aggregate_keys_def identifier_fields_def is_digit_def
      get_mock_patient_search_results_def get_mock_medical_analysis_results_def
      get_mock_compliance_results_def get_mock_risk_assessment_results_def
      get_mock_operational_results_def)

lemma routed_results:
  assumes "execute_query_try (JObj a) qd = Inr r"
    and "dict_get a ''queryType'' (JStr ''UNKNOWN'') \<in> set routed_types"
  shows "\<exists>rs. entry r ''results'' = Some (JArr rs) \<and>
     entry r ''resultCount'' = Some (JInt (int (length rs))) \<and> list_all aggregate_record rs"
  using assms tables_aggregate
  by (auto simp: execute_query_try_dict Let_def routed_types_def map_of_dict_set)

lemma unrouted_unchanged:
  assumes "dict_get a ''queryType'' (JStr ''UNKNOWN'') \<notin> set routed_types"
  shows "execute_query_try (JObj a) qd = Inr (JObj a)"
  using assms by (simp add: execute_query_try_dict Let_def routed_types_def)

lemma dict_get_stamped:
  "dict_get (dict_set a ''executionTime'' v) ''queryType'' dflt = dict_get a ''queryType'' dflt"
  by (simp add: dict_get_def map_of_dict_set)

lemma execute_query_try_keeps:
  assumes "execute_query_try (JObj a) qd = Inr r"
    and "k \<notin> {''results'', ''resultCount'', ''charts''}"
  shows "entry r k = map_of a k"
  using assms by (auto simp: execute_query_try_dict Let_def map_of_dict_set split: if_splits)

text \<open>The requests that went upstream are those of the body, whatever the handler does.\<close>

lemma snd_process_query:
  "snd (process_query w self qd) = snd (snd (process_query_try w self qd))"
  by (simp add: process_query_def split: prod.splits sum.splits pyexn.splits option.splits)





text \<open>The definitions that a run on concrete surroundings unfolds.\<close>

lemmas run_defs =
  process_query_def process_query_try_def process_query_except_def decode_and_execute_def
  execute_query_def execute_query_try_def store_results_def bind_exn_def raise_exc_def
  create_mock_response_def parse_natural_response_def new_processor_def key_missing_def
  chat_of_def py_str_def dict_get_def dict_set_def sample_env_def decoder_def

lemmas sample_defs =
  refusing_env_def unconfigured_env_def leaking_env_def compliance_env_def miscounted_env_def
  declined_env_def patient_env_def forecast_env_def list_env_def failing_env_def
  names_request_def status_request_def refusal_text_def identifying_text_def
  compliance_text_def compliance_value_def miscounted_text_def miscounted_value_def
  declined_text_def declined_value_def patient_text_def patient_value_def
  forecast_text_def forecast_value_def

section \<open>Claims confirmed on the code\<close>







text \<open>
  C8. When the decoded query type is \<^verbatim>\<open>COMPLIANCE_REPORTING\<close>, \<^verbatim>\<open>charts\<close> holds exactly
  one chart, of type \<^verbatim>\<open>bar\<close>, whose three points are labelled Completed, In Progress
  and Incomplete, and the values of the points add up to the sum of the counts of the
  compliance results table (145 + 18 + 7).
\<close>

theorem compliance_chart_sums_to_population:
  assumes "map_of d ''query'' = Some q"
    and "\<not> key_missing (openai_api_key self)"
    and "send_message w (chat_of w self q (dict_get d ''userRole'' (JStr ''staff''))
           (dict_get d ''requestId'' (JStr ''default''))) = Inr response"
    and "json_loads w response = Inr (JObj a)"
    and "map_of a ''queryType'' = Some (JStr ''COMPLIANCE_REPORTING'')"
  shows "\<exists>r chart rs. fst (process_query w self (JObj d)) = Inr r \<and>
     entry r ''charts'' = Some (JArr [chart]) \<and>
     entry chart ''type'' = Some (JStr ''bar'') \<and>
     map (\<lambda>p. entry p ''label'') (points chart) =
       [Some (JStr ''Completed''), Some (JStr ''In Progress''), Some (JStr ''Incomplete'')] \<and>
     map (\<lambda>p. entry p ''value'') (points chart) =
       [Some (JInt 145), Some (JInt 18), Some (JInt 7)] \<and>
     entry r ''results'' = Some (JArr rs) \<and>
     rs = get_mock_compliance_results \<and>
     sum_list (map (\<lambda>p. int_entry p ''value'') (points chart)) =
       sum_list (map (\<lambda>x. int_entry x ''count'') rs)"
proof -
  let ?a = "dict_set a ''executionTime'' (JStr (elapsed_0f w @ ''ms''))"
  have "dict_get ?a ''queryType'' (JStr ''UNKNOWN'') = JStr ''COMPLIANCE_REPORTING''"
    using assms(5) by (simp add: dict_get_def map_of_dict_set)
  then have "execute_query_try (JObj ?a) (JObj d) =
      Inr (JObj (dict_set (dict_set (dict_set ?a ''results'' (JArr get_mock_compliance_results))
                   ''resultCount'' (JInt (int (length get_mock_compliance_results))))
                   ''charts'' (JArr get_mock_compliance_charts)))"
    by (simp add: execute_query_try_dict Let_def)
  with assms(1-4) have "fst (process_query w self (JObj d)) =
      Inr (JObj (dict_set (dict_set (dict_set ?a ''results'' (JArr get_mock_compliance_results))
                   ''resultCount'' (JInt (int (length get_mock_compliance_results))))
                   ''charts'' (JArr get_mock_compliance_charts)))"
    by (simp add: process_query_def process_query_try_request Let_def raise_exc_def decode_dict)
  then show ?thesis
    by (simp add: map_of_dict_set get_mock_compliance_charts_def get_mock_compliance_results_def
        points_def int_entry_def)
qed

theorem compliance_chart_sums_to_population_witness:
  "map_of [(''query'', JStr ''How many questionnaires are incomplete?''),
           (''userRole'', JStr ''doctor''), (''requestId'', JStr ''r1'')] ''query'' =
     Some (JStr ''How many questionnaires are incomplete?'') \<and>
   \<not> key_missing (openai_api_key (new_processor compliance_env)) \<and>
   json_loads compliance_env compliance_text =
     Inr (JObj [(''success'', JBool True), (''queryType'', JStr ''COMPLIANCE_REPORTING'')]) \<and>
   map_of [(''success'', JBool True), (''queryType'', JStr ''COMPLIANCE_REPORTING'')]
     ''queryType'' = Some (JStr ''COMPLIANCE_REPORTING'') \<and>
   (\<exists>r. fst (process_query compliance_env (new_processor compliance_env) status_request) =
          Inr r \<and>
        entry r ''charts'' = Some (JArr get_mock_compliance_charts) \<and>
        entry r ''resultCount'' = Some (JInt 3))"
proof -
  have h1: "map_of [(''query'', JStr ''How many questionnaires are incomplete?''),
           (''userRole'', JStr ''doctor''), (''requestId'', JStr ''r1'')] ''query'' =
     Some (JStr ''How many questionnaires are incomplete?'')"
    by simp
  have h2: "\<not> key_missing (openai_api_key (new_processor compliance_env))"
    by (simp add: run_defs sample_defs)
  have h3: "send_message compliance_env
      (chat_of compliance_env (new_processor compliance_env)
         (JStr ''How many questionnaires are incomplete?'')
         (dict_get [(''query'', JStr ''How many questionnaires are incomplete?''),
           (''userRole'', JStr ''doctor''), (''requestId'', JStr ''r1'')] ''userRole''
           (JStr ''staff''))
         (dict_get [(''query'', JStr ''How many questionnaires are incomplete?''),
           (''userRole'', JStr ''doctor''), (''requestId'', JStr ''r1'')] ''requestId''
           (JStr ''default''))) = Inr compliance_text"
    by (simp add: sample_env_def compliance_env_def)
  have h4: "json_loads compliance_env compliance_text =
     Inr (JObj [(''success'', JBool True), (''queryType'', JStr ''COMPLIANCE_REPORTING'')])"
    by (simp add: sample_env_def compliance_env_def decoder_def compliance_value_def)
  have h5: "map_of [(''success'', JBool True), (''queryType'', JStr ''COMPLIANCE_REPORTING'')]
     ''queryType'' = Some (JStr ''COMPLIANCE_REPORTING'')"
    by simp
  have run: "fst (process_query compliance_env (new_processor compliance_env) status_request) =
     Inr (JObj [(''success'', JBool True), (''queryType'', JStr ''COMPLIANCE_REPORTING''),
                (''executionTime'', JStr ''12ms''),
                (''results'', JArr get_mock_compliance_results),
                (''resultCount'', JInt 3),
                (''charts'', JArr get_mock_compliance_charts)])"
    by (simp add: run_defs sample_defs get_mock_compliance_results_def)
  from compliance_chart_sums_to_population [OF h1 h2 h3 h4 h5] h1 h2 h4 h5 run show ?thesis
    by simp
qed

text \<open>
  C10. On every decoded dict and every query type, \<^verbatim>\<open>execute_query\<close> returns the dict
  with every key other than \<^verbatim>\<open>results\<close>, \<^verbatim>\<open>resultCount\<close> and \<^verbatim>\<open>charts\<close> as it was on
  entry: \<^verbatim>\<open>interpretation\<close>, \<^verbatim>\<open>queryType\<close>, \<^verbatim>\<open>mongoQuery\<close>, \<^verbatim>\<open>sqlQuery\<close>, \<^verbatim>\<open>executionTime\<close>,
  \<^verbatim>\<open>summary\<close> and \<^verbatim>\<open>suggestions\<close> among them. No statement of the body raises on a dict,
  so the handler never stores \<^verbatim>\<open>error\<close> and \<^verbatim>\<open>success\<close> either.
\<close>

theorem execute_query_frame:
  "\<exists>d'. execute_query (JObj d) query_data = Inr (JObj d') \<and>
     (\<forall>k. k \<notin> {''results'', ''resultCount'', ''charts''} \<longrightarrow> map_of d' k = map_of d k)"
  by (simp add: execute_query_dict execute_query_try_dict Let_def map_of_dict_set)

theorem execute_query_frame_witness:
  "execute_query
     (JObj [(''interpretation'', JStr ''Completion status''),
            (''queryType'', JStr ''COMPLIANCE_REPORTING''),
            (''results'', JArr []), (''resultCount'', JInt 0)])
     status_request =
     Inr (JObj [(''interpretation'', JStr ''Completion status''),
                (''queryType'', JStr ''COMPLIANCE_REPORTING''),
                (''results'', JArr get_mock_compliance_results), (''resultCount'', JInt 3),
                (''charts'', JArr get_mock_compliance_charts)]) \<and>
   ''interpretation'' \<notin> {''results'', ''resultCount'', ''charts''} \<and>
   map_of [(''interpretation'', JStr ''Completion status''),
           (''queryType'', JStr ''COMPLIANCE_REPORTING''),
           (''results'', JArr get_mock_compliance_results), (''resultCount'', JInt 3),
           (''charts'', JArr get_mock_compliance_charts)] ''interpretation'' =
     map_of [(''interpretation'', JStr ''Completion status''),
             (''queryType'', JStr ''COMPLIANCE_REPORTING''),
             (''results'', JArr []), (''resultCount'', JInt 0)] ''interpretation''"
  using execute_query_frame
    [of "[(''interpretation'', JStr ''Completion status''),
          (''queryType'', JStr ''COMPLIANCE_REPORTING''),
          (''results'', JArr []), (''resultCount'', JInt 0)]" status_request]
  by (simp add: execute_query_dict execute_query_try_dict Let_def dict_get_def dict_set_def
      get_mock_compliance_results_def)

section \<open>Claims that hold on the code in an amended form\<close>

text \<open>
  C1, as amended. The pipeline has no pre-check on the request text or on the role. For
  every request that carries a query, whatever its text, and with an absent role read as
  \<^verbatim>\<open>staff\<close>: when the credential is configured, exactly one request goes upstream; the
  pipeline returns without an upstream call only when the credential is missing, and then
  with \<^verbatim>\<open>success\<close> false, \<^verbatim>\<open>results\<close> empty and \<^verbatim>\<open>error\<close> set.
\<close>

theorem no_request_precheck:
  assumes "map_of d ''query'' = Some q"
  shows "(key_missing (openai_api_key self) \<longrightarrow>
           (\<exists>r. process_query w self (JObj d) = (Inr r, []) \<and>
                entry r ''success'' = Some (JBool False) \<and>
                entry r ''results'' = Some (JArr []) \<and>
                entry r ''error'' = Some (JStr ''OpenAI API key not configured''))) \<and>
         (\<not> key_missing (openai_api_key self) \<longrightarrow>
           snd (process_query w self (JObj d)) =
             [chat_of w self q (dict_get d ''userRole'' (JStr ''staff''))
                (dict_get d ''requestId'' (JStr ''default''))])"
proof (intro conjI impI)
  assume "key_missing (openai_api_key self)"
  with assms show "\<exists>r. process_query w self (JObj d) = (Inr r, []) \<and>
      entry r ''success'' = Some (JBool False) \<and>
      entry r ''results'' = Some (JArr []) \<and>
      entry r ''error'' = Some (JStr ''OpenAI API key not configured'')"
    by (simp add: process_query_def process_query_try_request create_mock_response_def)
next
  assume "\<not> key_missing (openai_api_key self)"
  with assms show "snd (process_query w self (JObj d)) =
      [chat_of w self q (dict_get d ''userRole'' (JStr ''staff''))
         (dict_get d ''requestId'' (JStr ''default''))]"
    by (simp add: snd_process_query process_query_try_request Let_def split: sum.splits)
qed

theorem no_request_precheck_witness:
  "map_of [(''query'', JStr ''list patient names'')] ''query'' =
     Some (JStr ''list patient names'') \<and>
   key_missing (openai_api_key (new_processor unconfigured_env)) \<and>
   \<not> key_missing (openai_api_key (new_processor failing_env)) \<and>
   (\<exists>r. process_query unconfigured_env (new_processor unconfigured_env) names_request =
          (Inr r, []) \<and> entry r ''results'' = Some (JArr [])) \<and>
   snd (process_query failing_env (new_processor failing_env) names_request) =
     [chat_of failing_env (new_processor failing_env) (JStr ''list patient names'')
        (JStr ''staff'') (JStr ''default'')]"
proof -
  have h: "map_of [(''query'', JStr ''list patient names'')] ''query'' =
     Some (JStr ''list patient names'')"
    by simp
  have k1: "key_missing (openai_api_key (new_processor unconfigured_env))"
    by (simp add: new_processor_def key_missing_def sample_env_def unconfigured_env_def)
  have k2: "\<not> key_missing (openai_api_key (new_processor failing_env))"
    by (simp add: new_processor_def key_missing_def sample_env_def failing_env_def)
  from no_request_precheck [OF h, of "new_processor unconfigured_env" unconfigured_env]
       no_request_precheck [OF h, of "new_processor failing_env" failing_env]
       h k1 k2
  show ?thesis
    by (auto simp: names_request_def dict_get_def)
qed

text \<open>
  C1 as stated fails: a request for \<open>list patient names\<close> without a role, on a
  configured processor, is sent upstream, and the reply (not JSON here) comes back in a
  success envelope.
\<close>

theorem names_request_is_forwarded:
  "fst (process_query refusing_env (new_processor refusing_env) names_request) =
     Inr (JObj [(''success'', JBool True),
                (''interpretation'', JStr ''AI interpretation of: list patient names''),
                (''queryType'', JStr ''GENERAL''),
                (''mongoQuery'', JObj []),
                (''sqlQuery'', JStr []),
                (''results'', JArr [JObj [(''response'', JStr ''Patient names cannot be listed.'')]]),
                (''resultCount'', JInt 1),
                (''executionTime'', JStr ''12ms''),
                (''summary'', JStr ''Patient names cannot be listed.''),
                (''charts'', JArr []),
                (''suggestions'', JArr
                   [JStr ''Try a more specific query'', JStr ''Ask about patient statistics''])]) \<and>
   snd (process_query refusing_env (new_processor refusing_env) names_request) =
     [chat_of refusing_env (new_processor refusing_env) (JStr ''list patient names'')
        (JStr ''staff'') (JStr ''default'')]"
  by (simp add: run_defs sample_defs)

text \<open>
  C2, as amended. Every response of \<^verbatim>\<open>process_query\<close> has \<^verbatim>\<open>resultCount\<close> equal to the
  length of \<^verbatim>\<open>results\<close> when it is the config-error envelope, the fallback envelope, or a
  decoded result whose query type is one of the five routed types. The exception envelope
  has neither key, and a decoded result of any other query type carries the
  \<^verbatim>\<open>results\<close> and \<^verbatim>\<open>resultCount\<close> that the upstream supplied, unchanged.
\<close>

theorem result_count_where_stored:
  assumes "process_query w self qd = (Inr r, sent)"
  shows "count_matches r
    \<or> (\<exists>msg q. r = process_query_except w msg q \<and>
          entry r ''results'' = None \<and> entry r ''resultCount'' = None)
    \<or> (\<exists>chat response a. sent = [chat] \<and> send_message w chat = Inr response \<and>
          json_loads w response = Inr (JObj a) \<and>
          dict_get a ''queryType'' (JStr ''UNKNOWN'') \<notin> set routed_types \<and>
          entry r ''results'' = map_of a ''results'' \<and>
          entry r ''resultCount'' = map_of a ''resultCount'')"
  using assms
proof (cases rule: process_query_returns)
  case (config d q)
  then show ?thesis by (simp add: count_matches_def create_mock_response_def)
next
  case (fault d q msg)
  then show ?thesis by (auto simp: process_query_except_def)
next
  case (fallback d q response)
  then show ?thesis by (simp add: count_matches_def parse_natural_response_def)
next
  case (decoded d q response a)
  let ?a = "dict_set a ''executionTime'' (JStr (elapsed_0f w @ ''ms''))"
  show ?thesis
  proof (cases "dict_get a ''queryType'' (JStr ''UNKNOWN'') \<in> set routed_types")
    case True
    then have "dict_get ?a ''queryType'' (JStr ''UNKNOWN'') \<in> set routed_types"
      by (simp add: dict_get_stamped)
    from routed_results [OF decoded(7) this] obtain rs
      where "entry r ''results'' = Some (JArr rs)"
        "entry r ''resultCount'' = Some (JInt (int (length rs)))"
      by blast
    then have "count_matches r" by (simp add: count_matches_def)
    then show ?thesis by simp
  next
    case False
    then have "dict_get ?a ''queryType'' (JStr ''UNKNOWN'') \<notin> set routed_types"
      by (simp add: dict_get_stamped)
    from unrouted_unchanged [OF this, of qd] decoded(7) have "r = JObj ?a" by simp
    then have "entry r ''results'' = map_of a ''results''"
      "entry r ''resultCount'' = map_of a ''resultCount''"
      by (simp_all add: map_of_dict_set)
    with decoded False show ?thesis by blast
  qed
qed

theorem result_count_where_stored_witness:
  "process_query compliance_env (new_processor compliance_env) status_request =
     (Inr (JObj [(''success'', JBool True), (''queryType'', JStr ''COMPLIANCE_REPORTING''),
                 (''executionTime'', JStr ''12ms''),
                 (''results'', JArr get_mock_compliance_results),
                 (''resultCount'', JInt 3),
                 (''charts'', JArr get_mock_compliance_charts)]),
      [chat_of compliance_env (new_processor compliance_env)
         (JStr ''How many questionnaires are incomplete?'') (JStr ''doctor'') (JStr ''r1'')]) \<and>
   count_matches
     (JObj [(''success'', JBool True), (''queryType'', JStr ''COMPLIANCE_REPORTING''),
            (''executionTime'', JStr ''12ms''),
            (''results'', JArr get_mock_compliance_results),
            (''resultCount'', JInt 3),
            (''charts'', JArr get_mock_compliance_charts)])"
proof -
  have h: "process_query compliance_env (new_processor compliance_env) status_request =
     (Inr (JObj [(''success'', JBool True), (''queryType'', JStr ''COMPLIANCE_REPORTING''),
                 (''executionTime'', JStr ''12ms''),
                 (''results'', JArr get_mock_compliance_results),
                 (''resultCount'', JInt 3),
                 (''charts'', JArr get_mock_compliance_charts)]),
      [chat_of compliance_env (new_processor compliance_env)
         (JStr ''How many questionnaires are incomplete?'') (JStr ''doctor'') (JStr ''r1'')])"
    by (simp add: run_defs sample_defs get_mock_compliance_results_def)
  from result_count_where_stored [OF h] h show ?thesis
    by (simp add: count_matches_def get_mock_compliance_results_def)
qed

text \<open>
  C2 as stated fails: the upstream reply below has query type \<^verbatim>\<open>GENERAL\<close>, one result and
  \<^verbatim>\<open>resultCount\<close> 0, and the response carries both as they came.
\<close>

theorem miscounted_reply_is_returned:
  "fst (process_query miscounted_env (new_processor miscounted_env) status_request) =
     Inr (JObj [(''success'', JBool True), (''queryType'', JStr ''GENERAL''),
                (''results'', JArr [JObj [(''note'', JStr ''none'')]]),
                (''resultCount'', JInt 0),
                (''executionTime'', JStr ''12ms'')]) \<and>
   \<not> count_matches
     (JObj [(''success'', JBool True), (''queryType'', JStr ''GENERAL''),
            (''results'', JArr [JObj [(''note'', JStr ''none'')]]),
            (''resultCount'', JInt 0),
            (''executionTime'', JStr ''12ms'')])"
  by (simp add: run_defs sample_defs count_matches_def)

text \<open>
  C3, as amended. On the config-error, fallback and exception envelopes, \<^verbatim>\<open>error\<close> is
  non-null exactly when \<^verbatim>\<open>success\<close> is false. On a decoded upstream result,
  \<^verbatim>\<open>success\<close> and \<^verbatim>\<open>error\<close> are returned as the upstream gave them.
\<close>

theorem error_iff_failure_off_decoded_path:
  assumes "process_query w self qd = (Inr r, sent)"
  shows "error_iff_failure r
    \<or> (\<exists>chat response a. sent = [chat] \<and> send_message w chat = Inr response \<and>
          json_loads w response = Inr (JObj a) \<and>
          entry r ''success'' = map_of a ''success'' \<and>
          entry r ''error'' = map_of a ''error'')"
  using assms
proof (cases rule: process_query_returns)
  case (config d q)
  then show ?thesis by (simp add: error_iff_failure_def create_mock_response_def)
next
  case (fault d q msg)
  then show ?thesis by (simp add: error_iff_failure_def process_query_except_def)
next
  case (fallback d q response)
  then show ?thesis by (simp add: error_iff_failure_def parse_natural_response_def)
next
  case (decoded d q response a)
  let ?a = "dict_set a ''executionTime'' (JStr (elapsed_0f w @ ''ms''))"
  from decoded(7) have "entry r ''success'' = map_of ?a ''success''"
    "entry r ''error'' = map_of ?a ''error''"
    by (simp_all add: execute_query_try_keeps)
  then have "entry r ''success'' = map_of a ''success''" "entry r ''error'' = map_of a ''error''"
    by (simp_all add: map_of_dict_set)
  with decoded show ?thesis by blast
qed

theorem error_iff_failure_off_decoded_path_witness:
  "process_query failing_env (new_processor failing_env) names_request =
     (Inr (JObj [(''success'', JBool False),
                 (''error'', JStr ''timed out''),
                 (''interpretation'', JStr ''Failed to process query: list patient names''),
                 (''suggestions'', JArr [JStr ''Try rephrasing your question'',
                                         JStr ''Use simpler medical terms''])]),
      [chat_of failing_env (new_processor failing_env) (JStr ''list patient names'')
         (JStr ''staff'') (JStr ''default'')]) \<and>
   error_iff_failure
     (JObj [(''success'', JBool False),
            (''error'', JStr ''timed out''),
            (''interpretation'', JStr ''Failed to process query: list patient names''),
            (''suggestions'', JArr [JStr ''Try rephrasing your question'',
                                    JStr ''Use simpler medical terms''])])"
proof -
  have h: "process_query failing_env (new_processor failing_env) names_request =
     (Inr (JObj [(''success'', JBool False),
                 (''error'', JStr ''timed out''),
                 (''interpretation'', JStr ''Failed to process query: list patient names''),
                 (''suggestions'', JArr [JStr ''Try rephrasing your question'',
                                         JStr ''Use simpler medical terms''])]),
      [chat_of failing_env (new_processor failing_env) (JStr ''list patient names'')
         (JStr ''staff'') (JStr ''default'')])"
    by (simp add: run_defs sample_defs)
  from error_iff_failure_off_decoded_path [OF h] h show ?thesis
    by (simp add: error_iff_failure_def)
qed

text \<open>
  C3 as stated fails: the upstream reply below says \<^verbatim>\<open>success\<close> false and has no
  \<^verbatim>\<open>error\<close> (the response format of the instruction block has no such key), and the
  response keeps it so.
\<close>

theorem declined_reply_has_no_error:
  "fst (process_query declined_env (new_processor declined_env) status_request) =
     Inr (JObj [(''success'', JBool False), (''queryType'', JStr ''PATIENT_SEARCH''),
                (''executionTime'', JStr ''12ms''),
                (''results'', JArr get_mock_patient_search_results),
                (''resultCount'', JInt 4)]) \<and>
   \<not> error_iff_failure
     (JObj [(''success'', JBool False), (''queryType'', JStr ''PATIENT_SEARCH''),
            (''executionTime'', JStr ''12ms''),
            (''results'', JArr get_mock_patient_search_results),
            (''resultCount'', JInt 4)])"
  by (simp add: run_defs sample_defs error_iff_failure_def get_mock_patient_search_results_def)




text \<open>
  C9, as amended. For every decoded response whose query type is not one of the five
  routed types, \<^verbatim>\<open>execute_query\<close> changes nothing: the final envelope is the decoded
  upstream dict with \<^verbatim>\<open>executionTime\<close> stamped, so \<^verbatim>\<open>results\<close>, \<^verbatim>\<open>resultCount\<close> and
  \<^verbatim>\<open>charts\<close> are what the upstream supplied, and absent when it supplied none.
\<close>

theorem unrouted_type_returns_upstream_entries:
  assumes "map_of d ''query'' = Some q"
    and "\<not> key_missing (openai_api_key self)"
    and "send_message w (chat_of w self q (dict_get d ''userRole'' (JStr ''staff''))
           (dict_get d ''requestId'' (JStr ''default''))) = Inr response"
    and "json_loads w response = Inr (JObj a)"
    and "dict_get a ''queryType'' (JStr ''UNKNOWN'') \<notin> set routed_types"
  shows "\<exists>r. fst (process_query w self (JObj d)) = Inr r \<and>
     r = JObj (dict_set a ''executionTime'' (JStr (elapsed_0f w @ ''ms''))) \<and>
     entry r ''results'' = map_of a ''results'' \<and>
     entry r ''resultCount'' = map_of a ''resultCount'' \<and>
     entry r ''charts'' = map_of a ''charts''"
proof -
  let ?a = "dict_set a ''executionTime'' (JStr (elapsed_0f w @ ''ms''))"
  from assms(5) have "dict_get ?a ''queryType'' (JStr ''UNKNOWN'') \<notin> set routed_types"
    by (simp add: dict_get_stamped)
  from unrouted_unchanged [OF this, of "JObj d"] assms(1-4)
  have "fst (process_query w self (JObj d)) = Inr (JObj ?a)"
    by (simp add: process_query_def process_query_try_request Let_def raise_exc_def decode_dict)
  then show ?thesis by (simp add: map_of_dict_set)
qed

theorem unrouted_type_returns_upstream_entries_witness:
  "map_of [(''query'', JStr ''How many questionnaires are incomplete?''),
           (''userRole'', JStr ''doctor''), (''requestId'', JStr ''r1'')] ''query'' =
     Some (JStr ''How many questionnaires are incomplete?'') \<and>
   \<not> key_missing (openai_api_key (new_processor miscounted_env)) \<and>
   json_loads miscounted_env miscounted_text = Inr miscounted_value \<and>
   JStr ''GENERAL'' \<notin> set routed_types \<and>
   fst (process_query miscounted_env (new_processor miscounted_env) status_request) =
     Inr (JObj [(''success'', JBool True), (''queryType'', JStr ''GENERAL''),
                (''results'', JArr [JObj [(''note'', JStr ''none'')]]),
                (''resultCount'', JInt 0),
                (''executionTime'', JStr ''12ms'')])"
proof -
  have h1: "map_of [(''query'', JStr ''How many questionnaires are incomplete?''),
           (''userRole'', JStr ''doctor''), (''requestId'', JStr ''r1'')] ''query'' =
     Some (JStr ''How many questionnaires are incomplete?'')"
    by simp
  have h2: "\<not> key_missing (openai_api_key (new_processor miscounted_env))"
    by (simp add: new_processor_def key_missing_def sample_env_def miscounted_env_def)
  have h3: "send_message miscounted_env
      (chat_of miscounted_env (new_processor miscounted_env)
         (JStr ''How many questionnaires are incomplete?'')
         (dict_get [(''query'', JStr ''How many questionnaires are incomplete?''),
           (''userRole'', JStr ''doctor''), (''requestId'', JStr ''r1'')] ''userRole''
           (JStr ''staff''))
         (dict_get [(''query'', JStr ''How many questionnaires are incomplete?''),
           (''userRole'', JStr ''doctor''), (''requestId'', JStr ''r1'')] ''requestId''
           (JStr ''default''))) = Inr miscounted_text"
    by (simp add: sample_env_def miscounted_env_def)
  have h4: "json_loads miscounted_env miscounted_text =
     Inr (JObj [(''success'', JBool True), (''queryType'', JStr ''GENERAL''),
           (''results'', JArr [JObj [(''note'', JStr ''none'')]]),
           (''resultCount'', JInt 0)])"
    by (simp add: sample_env_def miscounted_env_def decoder_def miscounted_value_def)
  have h5: "dict_get [(''success'', JBool True), (''queryType'', JStr ''GENERAL''),
           (''results'', JArr [JObj [(''note'', JStr ''none'')]]),
           (''resultCount'', JInt 0)] ''queryType'' (JStr ''UNKNOWN'') \<notin> set routed_types"
    by (simp add: dict_get_def routed_types_def)
  from unrouted_type_returns_upstream_entries [OF h1 h2 h3 h4 h5] h1 h2 h4 h5 show ?thesis
    by (simp add: status_request_def miscounted_value_def dict_set_def dict_get_def
        sample_env_def miscounted_env_def routed_types_def)
qed

text \<open>
  C9 as stated fails: the upstream reply below names a query type that has no branch and
  brings one result and one chart, and the response has them, not empty lists.
\<close>

theorem unrouted_reply_keeps_results:
  "fst (process_query forecast_env (new_processor forecast_env) status_request) =
     Inr (JObj [(''queryType'', JStr ''TREND_FORECAST''),
                (''results'', JArr [JObj [(''month'', JStr ''Jan''), (''count'', JInt 3)]]),
                (''resultCount'', JInt 1),
                (''charts'', JArr [JObj [(''type'', JStr ''line''), (''title'', JStr ''Trend''),
                                         (''data'', JArr [])]]),
                (''executionTime'', JStr ''12ms'')]) \<and>
   JStr ''TREND_FORECAST'' \<notin> set routed_types"
  by (simp add: run_defs sample_defs routed_types_def)

end
